theory Spec2Isabelle
  imports Main
begin

section \<open>The element tree of the pricing table\<close>

text \<open>
  The component \<^verbatim>\<open>PricingTable\<close> of
  \<^verbatim>\<open>src/components/pricing/search/pricing-table.tsx\<close> is one function whose body is a
  single \<^verbatim>\<open>return\<close> of a JSX literal. A JSX literal is a tree of elements: each element has
  a type (a host tag such as \<^verbatim>\<open>div\<close>, or a component such as the imported
  \<^verbatim>\<open>Button\<close>), props and children; a child is an element or a text. The value the function
  returns holds \<^verbatim>\<open>Button\<close> as an element type with its props and child: the function does
  not call \<^verbatim>\<open>Button\<close>.
\<close>

datatype propval = PStr string | PBool bool

datatype tag = Host string | Comp string

datatype jsx = Text string | Elem tag "(string \<times> propval) list" "jsx list"

text \<open>
  The source function declares no parameter and reads no variable, hook, or module state.
  JavaScript lets a caller hand it arguments all the same (React hands every component
  its props object), so the model takes one argument of any type, which the body never uses.

  JSX trims the text of a child that spans several lines, and an expression container
  that holds only a comment (\<^verbatim>\<open>{/* FREE */}\<close>) yields no child. A prop written without a
  value (\<^verbatim>\<open>asChild\<close>) is the boolean true.
\<close>

definition PricingTable :: "'props \<Rightarrow> jsx" where
  "PricingTable props =
    Elem (Host ''div'') [(''className'', PStr ''grid gap-6 md:grid-cols-3'')]
     [Elem (Host ''div'') [(''className'', PStr ''flex flex-col items-center gap-4 rounded-4xl bg-white p-6 shadow sm:gap-6 sm:p-8 dark:border-bg-mute dark:bg-bg-mute'')]
       [Elem (Host ''div'') [(''className'', PStr ''grow'')]
         [Elem (Host ''h4'') [(''className'', PStr ''mb-4 py-1 text-xl font-bold text-primary-text'')]
           [Text ''Free''],
          Elem (Host ''h5'') [(''className'', PStr ''text-2xl font-semibold'')] [Text ''$0''],
          Elem (Host ''p'') [(''className'', PStr ''text-sm text-text-mute'')] [Text ''-'']],
        Elem (Host ''div'') [(''className'', PStr ''grow'')]
         [Elem (Host ''div'') [(''className'', PStr ''text-balance rounded-lg bg-bg-mute px-3 py-2 text-sm text-primary-text dark:text-text-mute'')]
           [Text ''Perfect for prototypes and hobby projects'']],
        Elem (Host ''div'') [(''className'', PStr ''w-full px-6 *:border-b *:border-bg-mute'')]
         [Elem (Host ''div'') [(''className'', PStr ''py-3'')]
           [Elem (Host ''p'') [(''className'', PStr ''text-text-mute'')] [Text ''Monthly Query Limit''],
            Elem (Host ''p'') [(''className'', PStr ''font-semibold'')] [Text ''20K'']]],
        Elem (Host ''div'') [(''className'', PStr ''w-full px-6 *:border-b *:border-bg-mute'')]
         [Elem (Host ''div'') [(''className'', PStr ''py-3'')]
           [Elem (Host ''p'') [(''className'', PStr ''text-text-mute'')] [Text ''Max Records''],
            Elem (Host ''p'') [(''className'', PStr ''font-semibold'')] [Text ''200K'']]],
        Elem (Host ''div'') []
         [Elem (Comp ''Button'') [(''asChild'', PBool True), (''variant'', PStr ''primary'')]
           [Elem (Host ''a'') [(''target'', PStr ''_self''), (''href'', PStr ''https://console.upstash.com'')]
             [Text ''Start Now'']]]],
      Elem (Host ''div'') [(''className'', PStr ''flex flex-col items-center gap-4 rounded-4xl border-2 border-primary bg-white p-6 shadow sm:gap-6 sm:p-8 dark:border-bg-mute dark:bg-bg-mute'')]
       [Elem (Host ''div'') [(''className'', PStr ''grow'')]
         [Elem (Host ''h4'') [(''className'', PStr ''mb-4 py-1 text-xl font-bold text-primary-text'')]
           [Text ''Pay as you go''],
          Elem (Host ''h5'') [(''className'', PStr ''text-2xl font-semibold'')] [Text ''$0.05''],
          Elem (Host ''p'') [(''className'', PStr ''text-sm text-text-mute'')] [Text ''per 1K requests'']],
        Elem (Host ''div'') [(''className'', PStr ''grow'')]
         [Elem (Host ''div'') [(''className'', PStr ''text-balance rounded-lg bg-bg-mute px-3 py-2 text-sm text-primary-text dark:text-text-mute'')]
           [Text ''For use cases with bursting traffic'']],
        Elem (Host ''div'') [(''className'', PStr ''w-full px-6 *:border-b *:border-bg-mute'')]
         [Elem (Host ''div'') [(''className'', PStr ''py-3'')]
           [Elem (Host ''p'') [(''className'', PStr ''text-text-mute'')] [Text ''Monthly Query Limit''],
            Elem (Host ''p'') [(''className'', PStr ''font-semibold'')] [Text ''Unlimited'']]],
        Elem (Host ''div'') [(''className'', PStr ''w-full px-6 *:border-b *:border-bg-mute'')]
         [Elem (Host ''div'') [(''className'', PStr ''py-3'')]
           [Elem (Host ''p'') [(''className'', PStr ''text-text-mute'')] [Text ''Max Records''],
            Elem (Host ''p'') [(''className'', PStr ''font-semibold'')] [Text ''Unlimited'']]],
        Elem (Host ''div'') []
         [Elem (Comp ''Button'') [(''asChild'', PBool True), (''variant'', PStr ''primary'')]
           [Elem (Host ''a'') [(''target'', PStr ''_self''), (''href'', PStr ''https://console.upstash.com'')]
             [Text ''Start Now'']]]],
      Elem (Host ''div'') [(''className'', PStr ''flex flex-col items-center gap-4 rounded-4xl bg-white p-6 shadow sm:gap-6 sm:p-8 dark:border-bg-mute dark:bg-bg-mute'')]
       [Elem (Host ''div'') [(''className'', PStr ''grow'')]
         [Elem (Host ''h4'') [(''className'', PStr ''mb-4 py-1 text-xl font-bold text-primary-text'')]
           [Text ''Pro''],
          Elem (Host ''h5'') [(''className'', PStr ''flex items-baseline text-2xl font-semibold'')]
           [Text ''Coming Soon''],
          Elem (Host ''p'') [(''className'', PStr ''text-sm text-text-mute'')] [Text ''-'']],
        Elem (Host ''div'') [(''className'', PStr ''grow'')]
         [Elem (Host ''div'') [(''className'', PStr ''text-balance rounded-lg bg-bg-mute px-3 py-2 text-sm text-primary-text dark:text-text-mute'')]
           [Text ''For consistent loads with predictable costs'']],
        Elem (Host ''div'') [(''className'', PStr ''w-full px-6 *:border-b *:border-bg-mute'')]
         [Elem (Host ''div'') [(''className'', PStr ''py-3'')]
           [Elem (Host ''p'') [(''className'', PStr ''text-text-mute'')] [Text ''Monthly Query Limit''],
            Elem (Host ''p'') [(''className'', PStr ''font-semibold'')] [Text ''Unlimited'']]],
        Elem (Host ''div'') [(''className'', PStr ''w-full px-6 *:border-b *:border-bg-mute'')]
         [Elem (Host ''div'') [(''className'', PStr ''py-3'')]
           [Elem (Host ''p'') [(''className'', PStr ''text-text-mute'')] [Text ''Max Records''],
            Elem (Host ''p'') [(''className'', PStr ''font-semibold'')] [Text ''Unlimited'']]],
        Elem (Host ''div'') []
         [Elem (Comp ''Button'') [(''asChild'', PBool True), (''variant'', PStr ''primary'')]
           [Elem (Host ''a'') [(''target'', PStr ''_self''), (''href'', PStr ''#'')]
             [Text ''Coming Soon'']]]]]"

section \<open>Reading the tree\<close>

text \<open>
  What a reader of the rendered grid sees is read off the tree by the functions below.
  They walk the whole subtree in document order, so a row or control that the source
  placed anywhere in a card is found, in the place where it stands.
\<close>

fun children :: "jsx \<Rightarrow> jsx list" where
  "children (Text s) = []"
| "children (Elem t ps cs) = cs"

fun props_of :: "jsx \<Rightarrow> (string \<times> propval) list" where
  "props_of (Text s) = []"
| "props_of (Elem t ps cs) = ps"

fun descendants :: "jsx \<Rightarrow> jsx list" where
  "descendants (Text s) = [Text s]"
| "descendants (Elem t ps cs) = Elem t ps cs # concat (map descendants cs)"

fun text_of :: "jsx \<Rightarrow> string" where
  "text_of (Text s) = s"
| "text_of (Elem t ps cs) = concat (map text_of cs)"

fun has_tag :: "tag \<Rightarrow> jsx \<Rightarrow> bool" where
  "has_tag t (Text s) = False"
| "has_tag t (Elem u ps cs) = (t = u)"

definition by_tag :: "tag \<Rightarrow> jsx \<Rightarrow> jsx list" where
  "by_tag t e = filter (has_tag t) (descendants e)"

definition str_prop :: "string \<Rightarrow> jsx \<Rightarrow> string list" where
  "str_prop k e = (case map_of (props_of e) k of Some (PStr s) \<Rightarrow> [s] | _ \<Rightarrow> [])"

text \<open>The cards of the grid are the children of the root element, left to right.\<close>

definition cards :: "jsx \<Rightarrow> jsx list" where
  "cards grid = children grid"

text \<open>The title of a card is the text of its \<^verbatim>\<open>h4\<close> element.\<close>

definition card_titles :: "jsx \<Rightarrow> string list" where
  "card_titles c = map text_of (by_tag (Host ''h4'') c)"

text \<open>
  The price block is the element whose children are a title \<^verbatim>\<open>h4\<close>, a price \<^verbatim>\<open>h5\<close>
  and a unit \<^verbatim>\<open>p\<close>.
\<close>

fun price_block :: "jsx \<Rightarrow> (string \<times> string) list" where
  "price_block (Elem t ps [Elem (Host a) pa ca, Elem (Host b) pb cb, Elem (Host c) pc cc]) =
     (if a = ''h4'' \<and> b = ''h5'' \<and> c = ''p''
      then [(concat (map text_of cb), concat (map text_of cc))] else [])"
| "price_block e = []"

definition card_prices :: "jsx \<Rightarrow> (string \<times> string) list" where
  "card_prices c = concat (map price_block (descendants c))"

text \<open>
  A limit row is an element whose children are exactly two \<^verbatim>\<open>p\<close> elements, the label and
  the value.
\<close>

fun limit_row :: "jsx \<Rightarrow> (string \<times> string) list" where
  "limit_row (Elem t ps [Elem (Host a) pa ca, Elem (Host b) pb cb]) =
     (if a = ''p'' \<and> b = ''p''
      then [(concat (map text_of ca), concat (map text_of cb))] else [])"
| "limit_row e = []"

definition limit_rows :: "jsx \<Rightarrow> (string \<times> string) list" where
  "limit_rows c = concat (map limit_row (descendants c))"

text \<open>The description banner is the \<^verbatim>\<open>div\<close> whose only child is a text.\<close>

fun banner :: "jsx \<Rightarrow> string list" where
  "banner (Elem (Host t) ps [Text s]) = (if t = ''div'' then [s] else [])"
| "banner e = []"

definition card_descriptions :: "jsx \<Rightarrow> string list" where
  "card_descriptions c = concat (map banner (descendants c))"

text \<open>The action controls of a card are its \<^verbatim>\<open>Button\<close> elements.\<close>

definition card_actions :: "jsx \<Rightarrow> jsx list" where
  "card_actions c = by_tag (Comp ''Button'') c"

definition action_label :: "jsx \<Rightarrow> string" where
  "action_label ctl = text_of ctl"

definition action_hrefs :: "jsx \<Rightarrow> string list" where
  "action_hrefs ctl = concat (map (str_prop ''href'') (by_tag (Host ''a'') ctl))"

text \<open>
  A control is marked disabled when it, or an element inside it, carries a prop named
  \<^verbatim>\<open>disabled\<close> or \<^verbatim>\<open>aria-disabled\<close>.
\<close>

definition disabled_marks :: "jsx \<Rightarrow> string list" where
  "disabled_marks ctl =
     filter (\<lambda>k. k = ''disabled'' \<or> k = ''aria-disabled'')
       (concat (map (\<lambda>e. map fst (props_of e)) (descendants ctl)))"

text \<open>
  The target \<^verbatim>\<open>#\<close> is the placeholder: it names no destination, only the document the
  link stands in. Activating a control follows its hyperlinks. A hyperlink whose target
  is the placeholder leaves the reader on the document shown, and a control marked
  disabled follows nothing; any other target is navigated to. The navigations of a
  control are the destinations that activating it leads to. What is observed is the
  document shown, not the position inside it. A control is interactive when activating
  it leads somewhere.
\<close>

definition placeholder_target :: "string \<Rightarrow> bool" where
  "placeholder_target h = (h = ''#'')"

definition navigations :: "jsx \<Rightarrow> string list" where
  "navigations ctl =
     (if disabled_marks ctl = []
      then filter (\<lambda>h. \<not> placeholder_target h) (action_hrefs ctl) else [])"

definition interactive :: "jsx \<Rightarrow> bool" where
  "interactive ctl = (navigations ctl \<noteq> [])"

text \<open>
  The source marks the tier that cannot be bought yet in the card itself: in place of a
  price, its price heading reads "Coming Soon".
\<close>

definition coming_soon_tier :: "jsx \<Rightarrow> bool" where
  "coming_soon_tier c = (''Coming Soon'' \<in> set (map fst (card_prices c)))"

text \<open>
  The sections of a card are its children, from top to bottom. Each is recognised by its
  exact shape: the price block; the description banner in its wrapper; a limit row, a
  wrapper around one element that holds the label \<^verbatim>\<open>p\<close> and the value \<^verbatim>\<open>p\<close>, each with
  one text; the action, a wrapper around one \<^verbatim>\<open>Button\<close>. A child of any other shape is
  \<open>Other\<close>.
\<close>

datatype card_section = Heading | Description | LimitRow string string | Action | Other

definition section_of :: "jsx \<Rightarrow> card_section" where
  "section_of e =
     (case e of
        Elem (Host d) ps [Elem (Host a) pa [Elem (Host b) pb [Text l], Elem (Host c) pc [Text v]]] \<Rightarrow>
          (if d = ''div'' \<and> a = ''div'' \<and> b = ''p'' \<and> c = ''p'' then LimitRow l v else Other)
      | Elem (Host d) ps [Elem (Host a) pa [Text t]] \<Rightarrow>
          (if d = ''div'' \<and> a = ''div'' then Description else Other)
      | Elem (Host d) ps [Elem (Comp b) pb cs] \<Rightarrow>
          (if d = ''div'' \<and> b = ''Button'' then Action else Other)
      | Elem (Host d) ps [a, b, c] \<Rightarrow>
          (if d = ''div'' \<and> price_block e \<noteq> [] then Heading else Other)
      | _ \<Rightarrow> Other)"

text \<open>
  The class list of an element is its \<^verbatim>\<open>className\<close> split at spaces. A card is
  highlighted when its class list holds \<^verbatim>\<open>border-primary\<close>, the primary border.
\<close>

primrec tokens_from :: "string \<Rightarrow> string \<Rightarrow> string list" where
  "tokens_from cur [] = (if cur = [] then [] else [cur])"
| "tokens_from cur (c # cs) =
     (if c = CHR '' ''
      then (if cur = [] then tokens_from [] cs else cur # tokens_from [] cs)
      else tokens_from (cur @ [c]) cs)"

definition class_list :: "jsx \<Rightarrow> string list" where
  "class_list e = concat (map (tokens_from []) (str_prop ''className'' e))"

definition card_highlighted :: "jsx \<Rightarrow> bool" where
  "card_highlighted c = (''border-primary'' \<in> set (class_list c))"

section \<open>The data model of the specification\<close>

text \<open>
  The specification describes the grid through plan descriptors. The source has no such
  type: the records below follow the specification's data model, so that the tree the
  source returns can be compared with it.
\<close>

record CallToAction =
  label :: string
  href :: string
  enabled :: bool

record PlanDescriptor =
  name :: string
  priceLabel :: string
  priceUnit :: string
  description :: string
  limits :: "(string \<times> string) list"
  callToAction :: CallToAction
  highlighted :: bool

text \<open>
  The plan catalog: the data of the three cards as the source lists it, card by card, in
  the shape of the specification's descriptor. Every field but one is a literal of the
  source (\<^verbatim>\<open>highlighted\<close> is the \<^verbatim>\<open>border-2 border-primary\<close> of the second card's class).
  The source has no \<^verbatim>\<open>enabled\<close> flag; the field is set as the specification describes
  the tiers: the "Coming Soon" tier disabled, the other two enabled.
\<close>

definition catalog :: "PlanDescriptor list" where
  "catalog =
    [\<lparr>name = ''Free'', priceLabel = ''$0'', priceUnit = ''-'',
      description = ''Perfect for prototypes and hobby projects'',
      limits = [(''Monthly Query Limit'', ''20K''), (''Max Records'', ''200K'')],
      callToAction = \<lparr>label = ''Start Now'', href = ''https://console.upstash.com'', enabled = True\<rparr>,
      highlighted = False\<rparr>,
     \<lparr>name = ''Pay as you go'', priceLabel = ''$0.05'', priceUnit = ''per 1K requests'',
      description = ''For use cases with bursting traffic'',
      limits = [(''Monthly Query Limit'', ''Unlimited''), (''Max Records'', ''Unlimited'')],
      callToAction = \<lparr>label = ''Start Now'', href = ''https://console.upstash.com'', enabled = True\<rparr>,
      highlighted = True\<rparr>,
     \<lparr>name = ''Pro'', priceLabel = ''Coming Soon'', priceUnit = ''-'',
      description = ''For consistent loads with predictable costs'',
      limits = [(''Monthly Query Limit'', ''Unlimited''), (''Max Records'', ''Unlimited'')],
      callToAction = \<lparr>label = ''Coming Soon'', href = ''#'', enabled = False\<rparr>,
      highlighted = False\<rparr>]"

text \<open>
  The descriptor of the specification's scenario A. The scenario gives neither a
  description nor the highlight, which are left as parameters.
\<close>

definition scenario_A :: "string \<Rightarrow> bool \<Rightarrow> PlanDescriptor" where
  "scenario_A descr hl =
    \<lparr>name = ''Free'', priceLabel = ''$0'', priceUnit = ''-'', description = descr,
     limits = [(''Monthly Query Limit'', ''20K''), (''Max Records'', ''200K'')],
     callToAction = \<lparr>label = ''Start Now'', href = ''https://console.example.com'', enabled = True\<rparr>,
     highlighted = hl\<rparr>"

text \<open>
  The descriptor of the specification's scenario B: a call to action that is not enabled
  and whose target is "#". The scenario fixes nothing else, so the label and the rest of
  the descriptor are parameters.
\<close>

definition scenario_B :: "PlanDescriptor \<Rightarrow> string \<Rightarrow> PlanDescriptor" where
  "scenario_B d lbl = d\<lparr>callToAction := \<lparr>label = lbl, href = ''#'', enabled = False\<rparr>\<rparr>"

text \<open>
  What a card shows, and what the specification's card renderer is to show for a
  descriptor: title, price and unit, description, limit rows, the label and the target of
  the action control, and the highlight.
\<close>

definition card_view ::
  "jsx \<Rightarrow> string list \<times> (string \<times> string) list \<times> string list \<times> (string \<times> string) list
     \<times> string list \<times> string list list \<times> bool" where
  "card_view c =
     (card_titles c, card_prices c, card_descriptions c, limit_rows c,
      map action_label (card_actions c), map action_hrefs (card_actions c),
      card_highlighted c)"

definition descriptor_view ::
  "PlanDescriptor \<Rightarrow> string list \<times> (string \<times> string) list \<times> string list
     \<times> (string \<times> string) list \<times> string list \<times> string list list \<times> bool" where
  "descriptor_view d =
     ([name d], [(priceLabel d, priceUnit d)], [description d], limits d,
      [label (callToAction d)], [[href (callToAction d)]], highlighted d)"

section \<open>The names and their order\<close>

lemma cards_PricingTable_length: "length (cards (PricingTable x)) = 3"
  by (simp add: cards_def PricingTable_def)

text \<open>
  C9: every plan name in the rendered grid is a non-empty string, the names are pairwise
  distinct, and the three cards are titled "Free", "Pay as you go" and "Pro", from left
  to right.
\<close>

theorem plan_names_in_order:
  "map card_titles (cards (PricingTable x)) = [[''Free''], [''Pay as you go''], [''Pro'']]
   \<and> distinct (concat (map card_titles (cards (PricingTable x))))
   \<and> [] \<notin> set (concat (map card_titles (cards (PricingTable x))))"
  by (simp add: cards_def PricingTable_def card_titles_def by_tag_def)

text \<open>
  C4, as stated, asks that the grid hold one card per descriptor of whatever catalog it is
  given, of size 0, 1 or N. The component takes no catalog: handed the one-descriptor
  catalog of scenario A, it still returns its three cards.
\<close>

theorem grid_ignores_catalog_size:
  "length (cards (PricingTable [scenario_A [] False])) \<noteq> length [scenario_A [] False]"
  by (simp add: cards_def PricingTable_def)

text \<open>
  C4, amended: whatever the component is handed, the grid holds exactly three cards, one
  per descriptor of the source's own catalog and in the catalog's declared order (Free,
  Pay as you go, Pro): the cards show, position by position, the title, price, unit,
  description, limit rows, action label and target, and highlight of the descriptors.
\<close>

theorem grid_follows_catalog_order:
  "map card_view (cards (PricingTable x)) = map descriptor_view catalog
   \<and> length (cards (PricingTable x)) = length catalog"
  by (simp add: cards_def PricingTable_def catalog_def card_view_def descriptor_view_def
      card_titles_def card_prices_def card_descriptions_def limit_rows_def card_actions_def
      action_label_def action_hrefs_def card_highlighted_def class_list_def str_prop_def
      by_tag_def)

section \<open>The limit rows\<close>

text \<open>
  C3, as stated, holds of every plan descriptor. The component renders no descriptor it
  is given: handed the descriptor of scenario A with its two limits in the other order,
  no card of the grid shows the limit rows in the descriptor's order.
\<close>

theorem handed_limits_not_rendered:
  "limits ((scenario_A [] False)\<lparr>limits := [(''Max Records'', ''200K''), (''Monthly Query Limit'', ''20K'')]\<rparr>)
     \<notin> set (map limit_rows (cards (PricingTable
         ((scenario_A [] False)\<lparr>limits := [(''Max Records'', ''200K''), (''Monthly Query Limit'', ''20K'')]\<rparr>))))"
  by (simp add: cards_def PricingTable_def scenario_A_def limit_rows_def)

text \<open>
  C3, amended: for each of the three descriptors of the source's own catalog, the limit
  rows of its card are the descriptor's limits, in the same order and of the same length.
  No row is inserted, omitted, reordered, sorted, filtered or truncated: from top to
  bottom every card consists of the heading, the description, the limit rows of its
  descriptor and the action, and of nothing else. The component renders no descriptor
  handed to it.
\<close>

theorem fixed_limit_rows_in_order:
  "map limit_rows (cards (PricingTable x)) = map limits catalog
   \<and> map (map section_of \<circ> children) (cards (PricingTable x))
       = map (\<lambda>d. [Heading, Description] @ map (\<lambda>r. LimitRow (fst r) (snd r)) (limits d) @ [Action])
           catalog"
  by (simp add: cards_def PricingTable_def catalog_def limit_rows_def section_of_def)

text \<open>
  C10: every card has the same shape of limit rows: exactly two rows, labelled "Monthly
  Query Limit" then "Max Records", on each of the three cards.
\<close>

theorem limit_row_labels_uniform:
  "map (map fst \<circ> limit_rows) (cards (PricingTable x)) =
     [[''Monthly Query Limit'', ''Max Records''],
      [''Monthly Query Limit'', ''Max Records''],
      [''Monthly Query Limit'', ''Max Records'']]"
  by (simp add: cards_def PricingTable_def limit_rows_def)

section \<open>The empty catalog\<close>

text \<open>
  C5, as stated, asks that an empty catalog render an empty grid. The component cannot be
  given a catalog to render: handed an empty list of descriptors, it returns a grid that
  is not empty.
\<close>

theorem empty_catalog_grid_not_empty:
  "cards (PricingTable ([] :: PlanDescriptor list)) \<noteq> []"
  by (simp add: cards_def PricingTable_def)

text \<open>
  C5, amended: the component takes no catalog; every call returns a grid (the root
  \<^verbatim>\<open>div\<close> of class \<^verbatim>\<open>grid\<close>) with exactly three cards, never an empty one, and the call
  returns a tree in every case.
\<close>

theorem grid_always_three_cards:
  "length (cards (PricingTable x)) = 3
   \<and> cards (PricingTable x) \<noteq> []
   \<and> has_tag (Host ''div'') (PricingTable x)
   \<and> ''grid'' \<in> set (class_list (PricingTable x))"
  by (simp add: cards_def PricingTable_def class_list_def str_prop_def)

section \<open>The Free card\<close>

text \<open>
  C6, as stated, has the card of scenario A target \<^verbatim>\<open>https://console.example.com\<close>, the
  target of the scenario's descriptor. Handed that descriptor, the component's first
  card, titled "Free", targets another address.
\<close>

theorem scenario_A_target_differs:
  "card_titles (cards (PricingTable (scenario_A [] False)) ! 0) = [''Free'']
   \<and> map action_hrefs (card_actions (cards (PricingTable (scenario_A [] False)) ! 0))
       \<noteq> [[href (callToAction (scenario_A [] False))]]"
  by (simp add: cards_def PricingTable_def scenario_A_def card_titles_def card_actions_def
      action_hrefs_def str_prop_def by_tag_def)

text \<open>
  C6, amended: the first card is titled "Free", with price "$0" and unit "-", exactly two
  limit rows, ("Monthly Query Limit", "20K") then ("Max Records", "200K"), and one action
  control, labelled "Start Now", interactive, whose target is
  \<^verbatim>\<open>https://console.upstash.com\<close>.
\<close>

theorem free_card_rendering:
  "card_titles (cards (PricingTable x) ! 0) = [''Free'']
   \<and> card_prices (cards (PricingTable x) ! 0) = [(''$0'', ''-'')]
   \<and> limit_rows (cards (PricingTable x) ! 0)
       = [(''Monthly Query Limit'', ''20K''), (''Max Records'', ''200K'')]
   \<and> map action_label (card_actions (cards (PricingTable x) ! 0)) = [''Start Now'']
   \<and> map interactive (card_actions (cards (PricingTable x) ! 0)) = [True]
   \<and> map action_hrefs (card_actions (cards (PricingTable x) ! 0))
       = [[''https://console.upstash.com'']]"
  by (simp add: cards_def PricingTable_def card_titles_def card_prices_def limit_rows_def
      card_actions_def action_label_def action_hrefs_def interactive_def navigations_def
      placeholder_target_def disabled_marks_def str_prop_def by_tag_def)

section \<open>The highlighted card\<close>

text \<open>
  C8: exactly one card of the grid carries the primary border, the "Pay as you go" card,
  and no other.
\<close>

theorem one_highlighted_card:
  "map card_highlighted (cards (PricingTable x)) = [False, True, False]
   \<and> map card_titles (filter card_highlighted (cards (PricingTable x))) = [[''Pay as you go'']]"
  by (simp add: cards_def PricingTable_def card_highlighted_def class_list_def str_prop_def
      card_titles_def by_tag_def)

section \<open>The action controls\<close>

text \<open>
  C1: for every plan descriptor of the catalog, the action control of its card is
  interactive if and only if the descriptor's call to action is enabled. The enabled
  descriptors are those of the tiers the source does not mark "Coming Soon". In
  particular the control of the "Coming Soon" tier is not interactive: its only target
  is the placeholder "#", so that activating it leads nowhere.
\<close>

theorem action_interactive_iff_enabled:
  "map (map interactive \<circ> card_actions) (cards (PricingTable x))
     = map (\<lambda>d. [enabled (callToAction d)]) catalog
   \<and> map (enabled \<circ> callToAction) catalog
       = map (Not \<circ> coming_soon_tier) (cards (PricingTable x))
   \<and> map interactive (card_actions (cards (PricingTable x) ! 2)) = [False]
   \<and> map navigations (card_actions (cards (PricingTable x) ! 2)) = [[]]
   \<and> map (map placeholder_target \<circ> action_hrefs) (card_actions (cards (PricingTable x) ! 2))
       = [[True]]"
  by (simp add: cards_def PricingTable_def catalog_def coming_soon_tier_def card_prices_def
      card_actions_def action_hrefs_def interactive_def navigations_def disabled_marks_def
      placeholder_target_def str_prop_def by_tag_def)

text \<open>
  C2, as stated, holds of any descriptor whose call to action is not enabled and whose
  target is "#": its control is to carry the descriptor's label. The component renders
  no descriptor it is given: handed such a descriptor labelled "Notify me", no control
  of the grid carries that label.
\<close>

theorem handed_label_not_rendered:
  "\<not> enabled (callToAction (scenario_B (catalog ! 2) ''Notify me''))
   \<and> href (callToAction (scenario_B (catalog ! 2) ''Notify me'')) = ''#''
   \<and> label (callToAction (scenario_B (catalog ! 2) ''Notify me''))
       \<notin> set (concat (map (map action_label \<circ> card_actions)
             (cards (PricingTable (scenario_B (catalog ! 2) ''Notify me'')))))"
  by (simp add: scenario_B_def cards_def PricingTable_def card_actions_def action_label_def
      by_tag_def)

text \<open>
  C2, amended: the one descriptor of the source's own catalog whose call to action is not
  enabled and whose target is "#", that of the Pro tier, renders a control whose label
  equals the descriptor's label, "Coming Soon"; the control reads as disabled through
  that label, which repeats the price heading of its tier and is not the "Start Now" of
  the enabled tiers. Activating the control produces no navigation. The component
  renders no descriptor handed to it.
\<close>

theorem placeholder_control_rendering:
  "map (href \<circ> callToAction) (filter (Not \<circ> enabled \<circ> callToAction) catalog) = [''#'']
   \<and> map name (filter (Not \<circ> enabled \<circ> callToAction) catalog) = [''Pro'']
   \<and> map card_titles (filter coming_soon_tier (cards (PricingTable x))) = [[''Pro'']]
   \<and> map (map action_label \<circ> card_actions) (filter coming_soon_tier (cards (PricingTable x)))
       = map (\<lambda>d. [label (callToAction d)]) (filter (Not \<circ> enabled \<circ> callToAction) catalog)
   \<and> map (map action_label \<circ> card_actions) (filter coming_soon_tier (cards (PricingTable x)))
       = map (map fst \<circ> card_prices) (filter coming_soon_tier (cards (PricingTable x)))
   \<and> map (map action_label \<circ> card_actions) (cards (PricingTable x))
       = [[''Start Now''], [''Start Now''], [''Coming Soon'']]
   \<and> map (map action_hrefs \<circ> card_actions) (filter coming_soon_tier (cards (PricingTable x)))
       = [[[''#'']]]
   \<and> map (map navigations \<circ> card_actions) (filter coming_soon_tier (cards (PricingTable x)))
       = [[[]]]"
  by (simp add: cards_def PricingTable_def catalog_def coming_soon_tier_def card_prices_def
      card_titles_def card_actions_def action_label_def action_hrefs_def navigations_def
      disabled_marks_def placeholder_target_def str_prop_def by_tag_def)

end
